theory Spec2Isabelle
  imports Main "HOL-Library.Sublist" "HOL-Library.Multiset"
begin

section \<open>Data model (src/app.py, lines 94-157)\<close>

text \<open>
  The four tables of \<^verbatim>\<open>app.py\<close>. Several models share column names
  (\<^verbatim>\<open>id\<close>, \<^verbatim>\<open>user_id\<close>, \<^verbatim>\<open>post_id\<close>, \<^verbatim>\<open>created_at\<close>), so every field
  carries the initial of its model: \<open>u_\<close> for \<^verbatim>\<open>User\<close>, \<open>p_\<close> for \<^verbatim>\<open>Post\<close>,
  \<open>i_\<close> for \<^verbatim>\<open>PostImage\<close>, \<open>c_\<close> for \<^verbatim>\<open>Comment\<close>. Integer columns are
  Python/SQL integers (\<open>int\<close>), text columns are strings, the nullable
  \<^verbatim>\<open>image_url\<close> is an option. Timestamps are instants on an integer clock;
  \<^verbatim>\<open>created_at\<close> and \<^verbatim>\<open>updated_at\<close> always hold a value because the
  column default fills them on insert.
\<close>

record user =
  u_id :: int
  u_username :: string
  u_password :: string

record post =
  p_id :: int
  p_title :: string
  p_content :: string
  p_image_url :: "string option"
  p_user_id :: int
  p_created_at :: int
  p_updated_at :: int

record post_image =
  i_id :: int
  i_url :: string
  i_post_id :: int

record comment =
  c_id :: int
  c_text :: string
  c_user_id :: int
  c_post_id :: int
  c_created_at :: int

text \<open>
  The committed database: one list of rows per table, in insertion order.
\<close>

record db =
  users :: "user list"
  posts :: "post list"
  post_images :: "post_image list"
  comments :: "comment list"

section \<open>Exceptions, requests, responses\<close>

text \<open>
  Every exception the handlers can meet is a value. \<open>NotFound\<close> is werkzeug's
  \<^verbatim>\<open>NotFound\<close>, raised by \<^verbatim>\<open>get_or_404\<close>; like every \<^verbatim>\<open>HTTPException\<close> it is
  a subclass of \<^verbatim>\<open>Exception\<close>. \<open>KeyError\<close> is a missing key of the JSON body,
  \<open>AttributeError\<close> an attribute read on \<^verbatim>\<open>None\<close>; \<open>JSONDecodeError\<close> and
  \<open>ArgumentError\<close> come from \<^verbatim>\<open>json.loads\<close> and from \<^verbatim>\<open>in_\<close>; \<open>UploadError\<close>
  and \<open>DatabaseError\<close> are failures of the media store and of the storage
  backend, with their message.
\<close>

datatype exn =
    NotFound
  | KeyError string
  | AttributeError
  | JSONDecodeError
  | ArgumentError
  | UploadError string
  | DatabaseError string

text \<open>A value returned by \<^verbatim>\<open>json.loads\<close> (numbers are the integers).\<close>

datatype json =
    JNull
  | JBool bool
  | JNum int
  | JStr string
  | JArr "json list"
  | JObj "(string \<times> json) list"

text \<open>An uploaded file (werkzeug's \<^verbatim>\<open>FileStorage\<close>): its name and its bytes.\<close>

record file_storage =
  filename :: string
  content :: string

text \<open>
  The parts of Flask's \<^verbatim>\<open>request\<close> the handlers read: the query string
  \<^verbatim>\<open>request.args\<close>, the form fields \<^verbatim>\<open>request.form\<close>, the JSON object
  \<^verbatim>\<open>request.json\<close> and the uploaded files \<^verbatim>\<open>request.files\<close>, a multi-dict
  (a key is present when its list of files is not empty).
\<close>

record request =
  args :: "string \<rightharpoonup> string"
  form :: "string \<rightharpoonup> string"
  json_body :: "string \<rightharpoonup> string"
  files :: "string \<Rightarrow> file_storage list"

text \<open>
  The serialised post of \<^verbatim>\<open>Post.to_dict\<close> and comment of \<^verbatim>\<open>Comment.to_dict\<close>.
\<close>

record comment_dict =
  cd_id :: int
  cd_text :: string
  cd_user_id :: int
  cd_author :: string
  cd_created_at :: int

record post_dict =
  pd_id :: int
  pd_title :: string
  pd_content :: string
  pd_image_url :: "string option"
  pd_author :: string
  pd_user_id :: int
  pd_created_at :: int
  pd_updated_at :: int
  pd_images :: "(int \<times> string) list"
  pd_comments :: "comment_dict list option"

text \<open>
  The JSON bodies the handlers build: \<^verbatim>\<open>{"message": m}\<close>, \<^verbatim>\<open>{"error": str(e)}\<close>,
  \<^verbatim>\<open>{"message": f"Server Error: {str(e)}"}\<close>, the login body, a list of posts and
  one post.
\<close>

datatype body =
    Message string
  | Error exn
  | ServerError exn
  | LoginBody string int string
  | PostList "post_dict list"
  | PostDetail post_dict

record response =
  status :: nat
  body :: body

definition jsonify :: "body \<Rightarrow> nat \<Rightarrow> response" where
  "jsonify b s = \<lparr>status = s, body = b\<rparr>"

text \<open>
  A handler either returns a response or lets an exception escape. Flask turns
  an escaped \<^verbatim>\<open>HTTPException\<close> into the response of its code and any other
  exception into 500.
\<close>

type_synonym result = "exn + response"

fun http_status :: "result \<Rightarrow> nat" where
  "http_status (Inr r) = status r"
| "http_status (Inl NotFound) = 404"
| "http_status (Inl e) = 500"

section \<open>External collaborators\<close>

text \<open>
  What one request gets from outside the repository: Python's \<^verbatim>\<open>int\<close> as used
  by \<^verbatim>\<open>request.args.get(..., type=int)\<close> (\<open>None\<close> for a \<^verbatim>\<open>ValueError\<close>),
  \<^verbatim>\<open>json.loads\<close>, werkzeug's \<^verbatim>\<open>generate_password_hash\<close> (with the salt it drew
  for this call) and \<^verbatim>\<open>check_password_hash\<close>, the media store behind
  \<^verbatim>\<open>smart_upload\<close> (Cloudinary or the local upload directory), the clock, and
  whether \<^verbatim>\<open>db.session.commit()\<close> raises.
\<close>

record env =
  to_int :: "string \<Rightarrow> int option"
  json_loads :: "string \<Rightarrow> exn + json"
  generate_password_hash :: "string \<Rightarrow> string"
  check_password_hash :: "string \<Rightarrow> string \<Rightarrow> bool"
  store :: "file_storage \<Rightarrow> exn + string"
  now :: int
  commit_error :: "exn option"

section \<open>Queries and serialisation\<close>

text \<open>\<^verbatim>\<open>Model.query.get(id)\<close>: the row with that primary key, if any.\<close>

definition get_user :: "db \<Rightarrow> int \<Rightarrow> user option" where
  "get_user d k = find (\<lambda>u. u_id u = k) (users d)"

definition get_post :: "db \<Rightarrow> int \<Rightarrow> post option" where
  "get_post d k = find (\<lambda>p. p_id p = k) (posts d)"


text \<open>\<^verbatim>\<open>get_or_404\<close>: the row, or the exception \<^verbatim>\<open>NotFound\<close>.\<close>

definition get_or_404 :: "'a option \<Rightarrow> exn + 'a" where
  "get_or_404 row = (case row of None \<Rightarrow> Inl NotFound | Some r \<Rightarrow> Inr r)"

text \<open>The relationships \<^verbatim>\<open>Post.images\<close> and \<^verbatim>\<open>Post.comments\<close>.\<close>

definition images_of :: "db \<Rightarrow> int \<Rightarrow> post_image list" where
  "images_of d k = filter (\<lambda>i. i_post_id i = k) (post_images d)"

definition comments_of :: "db \<Rightarrow> int \<Rightarrow> comment list" where
  "comments_of d k = filter (\<lambda>c. c_post_id c = k) (comments d)"

definition comment_to_dict :: "db \<Rightarrow> comment \<Rightarrow> comment_dict" where
  "comment_to_dict d c =
     \<lparr>cd_id = c_id c, cd_text = c_text c, cd_user_id = c_user_id c,
      cd_author = (case get_user d (c_user_id c) of
                     Some u \<Rightarrow> u_username u | None \<Rightarrow> ''Anonymous''),
      cd_created_at = c_created_at c\<rparr>"

definition to_dict :: "db \<Rightarrow> bool \<Rightarrow> post \<Rightarrow> post_dict" where
  "to_dict d include_comments p =
     \<lparr>pd_id = p_id p, pd_title = p_title p, pd_content = p_content p,
      pd_image_url = p_image_url p,
      pd_author = (case get_user d (p_user_id p) of
                     Some u \<Rightarrow> u_username u | None \<Rightarrow> ''Unknown''),
      pd_user_id = p_user_id p,
      pd_created_at = p_created_at p, pd_updated_at = p_updated_at p,
      pd_images = map (\<lambda>i. (i_id i, i_url i)) (images_of d (p_id p)),
      pd_comments = (if include_comments
                     then Some (map (comment_to_dict d) (comments_of d (p_id p)))
                     else None)\<rparr>"

section \<open>GET /api/posts/<id> (get_post_detail, lines 227-238)\<close>

text \<open>
  \<^verbatim>\<open>get_or_404\<close> is called inside \<^verbatim>\<open>try\<close>, and the handler's
  \<^verbatim>\<open>except Exception\<close> catches whatever it raises and answers 500.
\<close>

definition get_post_detail :: "db \<Rightarrow> int \<Rightarrow> result" where
  "get_post_detail d post_id =
     (case get_or_404 (get_post d post_id) of
        Inr p \<Rightarrow> Inr (jsonify (PostDetail (to_dict d True p)) 200)
      | Inl e \<Rightarrow> Inr (jsonify (Error e) 500))"

section \<open>Request helpers, media store, session\<close>

text \<open>
  \<^verbatim>\<open>request.args.get(key, type=int)\<close> and \<^verbatim>\<open>request.form.get(key, type=int)\<close>:
  \<open>None\<close> when the key is absent or when its value does not convert.
\<close>

definition get_int :: "env \<Rightarrow> (string \<rightharpoonup> string) \<Rightarrow> string \<Rightarrow> int option" where
  "get_int e m k = (case m k of None \<Rightarrow> None | Some s \<Rightarrow> to_int e s)"

text \<open>\<^verbatim>\<open>request.form.get(key, default)\<close>.\<close>

definition get_default :: "(string \<rightharpoonup> string) \<Rightarrow> string \<Rightarrow> string \<Rightarrow> string" where
  "get_default m k dflt = (case m k of None \<Rightarrow> dflt | Some s \<Rightarrow> s)"

text \<open>
  \<^verbatim>\<open>smart_upload\<close> (lines 80-92): \<open>None\<close> for a file without a name (a
  \<^verbatim>\<open>FileStorage\<close> is false exactly when its name is empty), otherwise the URL
  the media store returns, or the exception it raises.
\<close>

definition smart_upload :: "env \<Rightarrow> file_storage \<Rightarrow> exn + string option" where
  "smart_upload e f =
     (if filename f = [] then Inr None
      else case store e f of Inl x \<Rightarrow> Inl x | Inr url \<Rightarrow> Inr (Some url))"

text \<open>
  \<^verbatim>\<open>db.session.commit()\<close>: the pending state becomes the database, or the
  backend raises and nothing is written.
\<close>

definition commit :: "env \<Rightarrow> db \<Rightarrow> exn + db" where
  "commit e pending = (case commit_error e of None \<Rightarrow> Inr pending | Some x \<Rightarrow> Inl x)"

text \<open>
  The primary key the backend gives an inserted row: one more than the
  largest key of the table.
\<close>

definition next_id :: "int list \<Rightarrow> int" where
  "next_id ks = fold max ks 0 + 1"

section \<open>POST /api/register and POST /api/login (lines 160-187)\<close>

text \<open>\<^verbatim>\<open>User.query.filter_by(username=name).first()\<close>.\<close>

definition user_by_name :: "db \<Rightarrow> string \<Rightarrow> user option" where
  "user_by_name d name = find (\<lambda>u. u_username u = name) (users d)"

definition register :: "env \<Rightarrow> request \<Rightarrow> db \<Rightarrow> result \<times> db" where
  "register e r d =
     (case json_body r ''username'' of
        None \<Rightarrow> (Inl (KeyError ''username''), d)
      | Some name \<Rightarrow>
          (case user_by_name d name of
             Some u \<Rightarrow> (Inr (jsonify (Message ''User already exists'') 400), d)
           | None \<Rightarrow>
               (case json_body r ''password'' of
                  None \<Rightarrow> (Inl (KeyError ''password''), d)
                | Some pw \<Rightarrow>
                    (let hashed_password = generate_password_hash e pw;
                         new_user = \<lparr>u_id = next_id (map u_id (users d)),
                                     u_username = name,
                                     u_password = hashed_password\<rparr>
                     in case commit e (d\<lparr>users := users d @ [new_user]\<rparr>) of
                          Inl x \<Rightarrow> (Inl x, d)
                        | Inr d' \<Rightarrow>
                            (Inr (jsonify (Message ''Registration successful'') 201), d')))))"

definition login :: "env \<Rightarrow> request \<Rightarrow> db \<Rightarrow> result" where
  "login e r d =
     (case json_body r ''username'' of
        None \<Rightarrow> Inl (KeyError ''username'')
      | Some name \<Rightarrow>
          (case user_by_name d name of
             None \<Rightarrow> Inr (jsonify (Message ''Invalid credentials'') 401)
           | Some u \<Rightarrow>
               (case json_body r ''password'' of
                  None \<Rightarrow> Inl (KeyError ''password'')
                | Some pw \<Rightarrow>
                    if check_password_hash e (u_password u) pw
                    then Inr (jsonify (LoginBody ''Login successful'' (u_id u) (u_username u)) 200)
                    else Inr (jsonify (Message ''Invalid credentials'') 401))))"

section \<open>GET /api/posts (get_posts, lines 203-225)\<close>

text \<open>
  The filter is SQL's \<^verbatim>\<open>LIKE\<close> on folded case: in a pattern \<^verbatim>\<open>%\<close> stands for
  any run of characters and \<^verbatim>\<open>_\<close> for any one character; every other
  character stands for itself.
\<close>

definition lower_char :: "char \<Rightarrow> char" where
  "lower_char c =
     (let n = (of_char c :: nat) in if 65 \<le> n \<and> n \<le> 90 then char_of (n + 32) else c)"

definition lower :: "string \<Rightarrow> string" where
  "lower s = map lower_char s"

fun like :: "string \<Rightarrow> string \<Rightarrow> bool" where
  "like [] s = (s = [])"
| "like (p # ps) [] = (p = CHR ''%'' \<and> like ps [])"
| "like (p # ps) (c # cs) =
     (if p = CHR ''%'' then like ps (c # cs) \<or> like (p # ps) cs
      else (p = CHR ''_'' \<or> p = c) \<and> like ps cs)"

definition ilike :: "string \<Rightarrow> string \<Rightarrow> bool" where
  "ilike s pat = like (lower pat) (lower s)"

text \<open>\<^verbatim>\<open>order_by(Post.created_at.desc())\<close>; rows of equal time keep table order.\<close>

definition order_by_created_at_desc :: "post list \<Rightarrow> post list" where
  "order_by_created_at_desc ps = sort_key (\<lambda>p. - p_created_at p) ps"

definition get_posts_query :: "request \<Rightarrow> db \<Rightarrow> post list" where
  "get_posts_query r d =
     (let search_query = get_default (args r) ''q'' [];
          query = posts d;
          query = (if search_query \<noteq> []
                   then filter (\<lambda>p. ilike (p_title p) (''%'' @ search_query @ ''%'') \<or>
                                    ilike (p_content p) (''%'' @ search_query @ ''%'')) query
                   else query)
      in order_by_created_at_desc query)"

definition get_posts :: "request \<Rightarrow> db \<Rightarrow> result" where
  "get_posts r d = Inr (jsonify (PostList (map (to_dict d False) (get_posts_query r d))) 200)"

section \<open>DELETE /api/posts/<id> (delete_post, lines 285-293)\<close>

text \<open>
  \<^verbatim>\<open>db.session.delete(post)\<close>: the relationships \<^verbatim>\<open>images\<close> and \<^verbatim>\<open>comments\<close>
  are declared with \<^verbatim>\<open>cascade="all, delete-orphan"\<close> (lines 116-117), so the
  rows they hold are deleted with the post.
\<close>

definition session_delete_post :: "db \<Rightarrow> post \<Rightarrow> db" where
  "session_delete_post d p =
     d\<lparr>posts := filter (\<lambda>q. p_id q \<noteq> p_id p) (posts d),
       post_images := filter (\<lambda>i. i_post_id i \<noteq> p_id p) (post_images d),
       comments := filter (\<lambda>c. c_post_id c \<noteq> p_id p) (comments d)\<rparr>"

definition delete_post :: "env \<Rightarrow> request \<Rightarrow> int \<Rightarrow> db \<Rightarrow> result \<times> db" where
  "delete_post e r post_id d =
     (case get_or_404 (get_post d post_id) of
        Inl x \<Rightarrow> (Inl x, d)
      | Inr p \<Rightarrow>
          (let user_id = get_int e (args r) ''user_id'' in
           if user_id \<noteq> Some (p_user_id p)
           then (Inr (jsonify (Message ''Permission denied'') 403), d)
           else case commit e (session_delete_post d p) of
                  Inl x \<Rightarrow> (Inl x, d)
                | Inr d' \<Rightarrow> (Inr (jsonify (Message ''Deleted'') 200), d')))"

section \<open>PUT /api/posts/<id> (update_post, lines 296-358)\<close>

text \<open>
  Step 2 (lines 311-318): \<^verbatim>\<open>delete_cover\<close> clears the cover first; a cover
  file with a name then replaces it.
\<close>

definition update_cover :: "env \<Rightarrow> request \<Rightarrow> string option \<Rightarrow> exn + string option" where
  "update_cover e r cur =
     (let cover = (if form r ''delete_cover'' = Some ''true'' then None else cur)
      in case files r ''image'' of
           [] \<Rightarrow> Inr cover
         | f # _ \<Rightarrow> if filename f \<noteq> [] then smart_upload e f else Inr cover)"

text \<open>Python's truth value of a JSON value.\<close>

fun truthy :: "json \<Rightarrow> bool" where
  "truthy JNull = False"
| "truthy (JBool b) = b"
| "truthy (JNum n) = (n \<noteq> 0)"
| "truthy (JStr s) = (s \<noteq> [])"
| "truthy (JArr xs) = (xs \<noteq> [])"
| "truthy (JObj kvs) = (kvs \<noteq> [])"

text \<open>
  \<^verbatim>\<open>PostImage.id.in_(v)\<close>: the integer keys a list selects; anything that is
  not a list is refused with \<^verbatim>\<open>ArgumentError\<close>.
\<close>

fun in_ids :: "json \<Rightarrow> exn + int list" where
  "in_ids (JArr xs) = Inr (concat (map (\<lambda>x. case x of JNum n \<Rightarrow> [n] | _ \<Rightarrow> []) xs))"
| "in_ids v = Inl ArgumentError"

text \<open>
  Step 3 (lines 322-343): the gallery rows named in \<^verbatim>\<open>delete_image_ids\<close> that
  belong to the post are deleted. The whole step sits in \<^verbatim>\<open>try\<close>; its
  \<^verbatim>\<open>except Exception\<close> prints the exception and the handler goes on.
\<close>

definition delete_gallery :: "env \<Rightarrow> request \<Rightarrow> post \<Rightarrow> post_image list \<Rightarrow> post_image list" where
  "delete_gallery e r p imgs =
     (let removed_ids_json = get_default (form r) ''delete_image_ids'' ''[]''
      in case json_loads e removed_ids_json of
           Inl x \<Rightarrow> imgs
         | Inr delete_image_ids \<Rightarrow>
             if truthy delete_image_ids
             then (case in_ids delete_image_ids of
                     Inl x \<Rightarrow> imgs
                   | Inr ks \<Rightarrow>
                       filter (\<lambda>i. \<not> (i_id i \<in> set ks \<and> i_post_id i = p_id p)) imgs)
             else imgs)"

text \<open>
  Step 4 (lines 346-351): every gallery file that yields a URL becomes a new
  \<^verbatim>\<open>PostImage\<close> row; an exception of the media store escapes.
\<close>

fun add_gallery :: "env \<Rightarrow> int \<Rightarrow> file_storage list \<Rightarrow> post_image list \<Rightarrow> exn + post_image list" where
  "add_gallery e pid [] imgs = Inr imgs"
| "add_gallery e pid (f # fs) imgs =
     (case smart_upload e f of
        Inl x \<Rightarrow> Inl x
      | Inr None \<Rightarrow> add_gallery e pid fs imgs
      | Inr (Some new_url) \<Rightarrow>
          if new_url \<noteq> []
          then add_gallery e pid fs
                 (imgs @ [\<lparr>i_id = next_id (map i_id imgs), i_url = new_url, i_post_id = pid\<rparr>])
          else add_gallery e pid fs imgs)"

text \<open>
  The handler. An exception that escapes leaves the database as it was (the
  session is discarded with the request). \<^verbatim>\<open>updated_at\<close> takes the clock's
  value when a column of the post changed (\<^verbatim>\<open>onupdate\<close>).
\<close>

definition update_post :: "env \<Rightarrow> request \<Rightarrow> int \<Rightarrow> db \<Rightarrow> result \<times> db" where
  "update_post e r post_id d =
     (case get_or_404 (get_post d post_id) of
        Inl x \<Rightarrow> (Inl x, d)
      | Inr p \<Rightarrow>
          (let user_id_from_client = get_int e (form r) ''user_id'' in
           if user_id_from_client \<noteq> Some (p_user_id p)
           then (Inr (jsonify (Message ''Permission denied'') 403), d)
           else
             (case update_cover e r (p_image_url p) of
                Inl x \<Rightarrow> (Inl x, d)
              | Inr cover \<Rightarrow>
                  (let p1 = p\<lparr>p_title := get_default (form r) ''title'' (p_title p),
                              p_content := get_default (form r) ''content'' (p_content p),
                              p_image_url := cover\<rparr>;
                       imgs1 = delete_gallery e r p (post_images d)
                   in case add_gallery e (p_id p) (files r ''images'') imgs1 of
                        Inl x \<Rightarrow> (Inl x, d)
                      | Inr imgs2 \<Rightarrow>
                          (let p2 = (if p1 = p then p else p1\<lparr>p_updated_at := now e\<rparr>);
                               pending = d\<lparr>posts := map (\<lambda>q. if p_id q = p_id p then p2 else q)
                                                        (posts d),
                                           post_images := imgs2\<rparr>
                           in case commit e pending of
                                Inr d' \<Rightarrow> (Inr (jsonify (Message ''Update successful'') 200), d')
                              | Inl x \<Rightarrow> (Inr (jsonify (ServerError x) 500), d))))))"

section \<open>DELETE /api/comments/<id> (delete_comment, lines 368-376)\<close>


section \<open>The claim about search, in the specification's words\<close>

text \<open>
  A term is contained in a text as a case-insensitive substring; a post matches
  a term when its title or its content contains it.
\<close>

definition contains_ci :: "string \<Rightarrow> string \<Rightarrow> bool" where
  "contains_ci term s = sublist (lower term) (lower s)"

definition matches_term :: "string \<Rightarrow> post \<Rightarrow> bool" where
  "matches_term term p = (contains_ci term (p_title p) \<or> contains_ci term (p_content p))"

section \<open>Fixtures\<close>

text \<open>
  Concrete collaborators for the worked examples: a converter that reads plain
  decimal digits as \<^verbatim>\<open>int\<close> does, a decoder that knows the two documents
  \<^verbatim>\<open>[]\<close> and \<^verbatim>\<open>[10]\<close> and rejects every other string used below as
  \<^verbatim>\<open>json.loads\<close> does, a toy password hash with its check, a media store that
  always answers, and a backend whose commit succeeds.
\<close>

fun digits_value :: "nat \<Rightarrow> string \<Rightarrow> nat option" where
  "digits_value acc [] = Some acc"
| "digits_value acc (c # cs) =
     (let n = (of_char c :: nat)
      in if 48 \<le> n \<and> n \<le> 57 then digits_value (10 * acc + (n - 48)) cs else None)"

definition decimal_int :: "string \<Rightarrow> int option" where
  "decimal_int s = (if s = [] then None else map_option int (digits_value 0 s))"

definition loads_fixture :: "string \<Rightarrow> exn + json" where
  "loads_fixture s =
     (if s = ''[]'' then Inr (JArr [])
      else if s = ''[10]'' then Inr (JArr [JNum 10])
      else Inl JSONDecodeError)"

definition toy_hash :: "string \<Rightarrow> string" where
  "toy_hash pw = ''toy$salt$'' @ rev pw"

definition toy_check :: "string \<Rightarrow> string \<Rightarrow> bool" where
  "toy_check pwhash pw = (pwhash = toy_hash pw)"

definition store_ok :: "file_storage \<Rightarrow> exn + string" where
  "store_ok f = Inr (''/static/uploads/'' @ filename f)"

definition env0 :: env where
  "env0 = \<lparr>to_int = decimal_int, json_loads = loads_fixture,
           generate_password_hash = toy_hash, check_password_hash = toy_check,
           store = store_ok, now = 500, commit_error = None\<rparr>"


definition alice :: user where
  "alice = \<lparr>u_id = 1, u_username = ''alice'', u_password = toy_hash ''wonderland''\<rparr>"

definition bob :: user where
  "bob = \<lparr>u_id = 2, u_username = ''bob'', u_password = toy_hash ''builder''\<rparr>"

definition post1 :: post where
  "post1 = \<lparr>p_id = 1, p_title = ''Rome'', p_content = ''trip'',
            p_image_url = Some ''/static/uploads/old.png'', p_user_id = 1,
            p_created_at = 100, p_updated_at = 100\<rparr>"

definition image10 :: post_image where
  "image10 = \<lparr>i_id = 10, i_url = ''/static/uploads/a.png'', i_post_id = 1\<rparr>"

definition comment20 :: comment where
  "comment20 = \<lparr>c_id = 20, c_text = ''nice'', c_user_id = 2, c_post_id = 1, c_created_at = 200\<rparr>"

definition empty_db :: db where
  "empty_db = \<lparr>users = [], posts = [], post_images = [], comments = []\<rparr>"

definition db1 :: db where
  "db1 = \<lparr>users = [alice, bob], posts = [post1], post_images = [image10],
          comments = [comment20]\<rparr>"

definition carol :: user where
  "carol = \<lparr>u_id = 3, u_username = ''carol'', u_password = toy_hash ''secret''\<rparr>"

definition db2 :: db where
  "db2 = db1\<lparr>users := [alice, bob, carol]\<rparr>"

definition no_files :: "string \<Rightarrow> file_storage list" where
  "no_files k = []"

definition query_request :: "(string \<rightharpoonup> string) \<Rightarrow> request" where
  "query_request a = \<lparr>args = a, form = Map.empty, json_body = Map.empty, files = no_files\<rparr>"

definition json_request :: "(string \<rightharpoonup> string) \<Rightarrow> request" where
  "json_request j = \<lparr>args = Map.empty, form = Map.empty, json_body = j, files = no_files\<rparr>"

definition form_request :: "(string \<rightharpoonup> string) \<Rightarrow> (string \<Rightarrow> file_storage list) \<Rightarrow> request" where
  "form_request f fs = \<lparr>args = Map.empty, form = f, json_body = Map.empty, files = fs\<rparr>"

definition new_cover :: file_storage where
  "new_cover = \<lparr>filename = ''new.png'', content = ''PNG''\<rparr>"

definition cover_files :: "string \<Rightarrow> file_storage list" where
  "cover_files k = (if k = ''image'' then [new_cover] else [])"

section \<open>Theorems\<close>

subsection \<open>Shared facts about rows and keys\<close>

lemma find_id_eq: "find (\<lambda>q. f q = k) xs = Some p \<Longrightarrow> f p = k"
  by (auto simp: find_Some_iff)

lemma find_filter_neq: "find (\<lambda>q. f q = k) (filter (\<lambda>q. f q \<noteq> k) xs) = None"
  by (simp add: find_None_iff)

lemma find_append_last: "find P xs = None \<Longrightarrow> P u \<Longrightarrow> find P (xs @ [u]) = Some u"
  by (induction xs) (auto split: if_splits)

lemma find_map_replace:
  "find (\<lambda>q. f q = k) xs = Some p \<Longrightarrow> f p2 = k \<Longrightarrow>
   find (\<lambda>q. f q = k) (map (\<lambda>q. if f q = k then p2 else q) xs) = Some p2"
  by (induction xs) (auto split: if_splits)

lemma get_post_id: "get_post d k = Some p \<Longrightarrow> p_id p = k"
  unfolding get_post_def by (rule find_id_eq)



subsection \<open>Post detail\<close>

text \<open>
  C1. The claim is that \<^verbatim>\<open>GET /api/posts/{id}\<close> answers 404 (NotFound) for an id
  that is no Post's. The handler answers 500 instead: for every database and
  every id without a Post the response is \<^verbatim>\<open>{"error": str(e)}\<close> for the
  \<^verbatim>\<open>NotFound\<close> exception, with status 500, never 404.
\<close>

theorem get_post_detail_missing_is_500:
  "get_post d post_id = None \<Longrightarrow>
     get_post_detail d post_id = Inr (jsonify (Error NotFound) 500) \<and>
     http_status (get_post_detail d post_id) \<noteq> 404"
  by (simp add: get_post_detail_def get_or_404_def jsonify_def)

theorem get_post_detail_missing_is_500_witness:
  "get_post empty_db 7 = None \<and>
   get_post_detail empty_db 7 = Inr (jsonify (Error NotFound) 500) \<and>
   http_status (get_post_detail empty_db 7) \<noteq> 404"
  using get_post_detail_missing_is_500 [of empty_db 7]
  by (simp add: get_post_def empty_db_def jsonify_def)

subsection \<open>Deleting a post\<close>

lemma delete_post_owner_eq:
  assumes "get_post d post_id = Some p"
    and "get_int e (args r) ''user_id'' = Some (p_user_id p)"
    and "commit_error e = None"
  shows "delete_post e r post_id d =
           (Inr (jsonify (Message ''Deleted'') 200), session_delete_post d p)"
  using assms by (simp add: delete_post_def get_or_404_def commit_def)

lemma session_delete_post_gone:
  "get_post (session_delete_post d p) (p_id p) = None"
  by (simp add: session_delete_post_def get_post_def find_filter_neq)

lemma session_delete_post_images:
  "images_of (session_delete_post d p) (p_id p) = []"
  by (simp add: session_delete_post_def images_of_def)

lemma session_delete_post_comments:
  "comments_of (session_delete_post d p) (p_id p) = []"
  by (simp add: session_delete_post_def comments_of_def)

text \<open>
  C3. When the owner of an existing Post deletes it and the commit goes
  through, the answer is 200, the Post is gone, and no \<^verbatim>\<open>PostImage\<close> row and
  no \<^verbatim>\<open>Comment\<close> row refers to its id, however many there were; the users
  are untouched.
\<close>

theorem delete_post_by_owner_no_orphans:
  assumes "get_post d post_id = Some p"
    and "get_int e (args r) ''user_id'' = Some (p_user_id p)"
    and "commit_error e = None"
  shows "\<exists>d'. delete_post e r post_id d = (Inr (jsonify (Message ''Deleted'') 200), d') \<and>
           get_post d' post_id = None \<and>
           images_of d' post_id = [] \<and>
           comments_of d' post_id = [] \<and>
           users d' = users d"
proof -
  have k: "p_id p = post_id"
    using assms(1) by (rule get_post_id)
  let ?d = "session_delete_post d p"
  have "delete_post e r post_id d = (Inr (jsonify (Message ''Deleted'') 200), ?d)"
    using assms by (rule delete_post_owner_eq)
  moreover have "get_post ?d post_id = None"
    using session_delete_post_gone [of d p] k by simp
  moreover have "images_of ?d post_id = []"
    using session_delete_post_images [of d p] k by simp
  moreover have "comments_of ?d post_id = []"
    using session_delete_post_comments [of d p] k by simp
  moreover have "users ?d = users d"
    by (simp add: session_delete_post_def)
  ultimately show ?thesis by blast
qed

theorem delete_post_by_owner_no_orphans_witness:
  "get_post db1 1 = Some post1 \<and>
   get_int env0 (args (query_request [''user_id'' \<mapsto> ''1''])) ''user_id'' = Some (p_user_id post1) \<and>
   commit_error env0 = None \<and>
   images_of db1 1 = [image10] \<and> comments_of db1 1 = [comment20] \<and>
   (\<exists>d'. delete_post env0 (query_request [''user_id'' \<mapsto> ''1'']) 1 db1 =
            (Inr (jsonify (Message ''Deleted'') 200), d') \<and>
         get_post d' 1 = None \<and> images_of d' 1 = [] \<and> comments_of d' 1 = [] \<and>
         users d' = users db1)"
proof -
  have h1: "get_post db1 1 = Some post1"
    by (simp add: get_post_def db1_def post1_def)
  have h2: "get_int env0 (args (query_request [''user_id'' \<mapsto> ''1''])) ''user_id'' =
              Some (p_user_id post1)"
    by (simp add: get_int_def query_request_def env0_def decimal_int_def post1_def)
  have h3: "commit_error env0 = None"
    by (simp add: env0_def)
  have h4: "images_of db1 1 = [image10]"
    by (simp add: images_of_def db1_def image10_def)
  have h5: "comments_of db1 1 = [comment20]"
    by (simp add: comments_of_def db1_def comment20_def)
  from h1 h2 h3 h4 h5 delete_post_by_owner_no_orphans [OF h1 h2 h3]
  show ?thesis by - (intro conjI, assumption+)
qed

subsection \<open>Deleting a comment\<close>








subsection \<open>Registration and login\<close>

lemma user_by_name_mem:
  "user_by_name d name = Some u \<Longrightarrow> u \<in> set (users d) \<and> u_username u = name"
  by (auto simp: user_by_name_def find_Some_iff)

lemma user_by_name_append:
  "user_by_name d name = None \<Longrightarrow> u_username u = name \<Longrightarrow>
   user_by_name (d\<lparr>users := users d @ [u]\<rparr>) name = Some u"
  by (simp add: user_by_name_def find_append_last)

text \<open>
  C6. A registration whose username is already stored is answered 400 and the
  database, with the stored row and its password hash, is unchanged. A
  registration with a fresh username (and a commit that goes through) is
  answered 201 and appends one User whose password column holds the value
  \<^verbatim>\<open>generate_password_hash\<close> returned for the password, so it differs from the
  plaintext whenever that hash does; from then on the username is taken.
\<close>

theorem register_conflict_and_hash:
  assumes "json_body r ''username'' = Some name"
  shows "(\<forall>u. user_by_name d name = Some u \<longrightarrow>
            register e r d = (Inr (jsonify (Message ''User already exists'') 400), d)) \<and>
         (user_by_name d name = None \<longrightarrow> json_body r ''password'' = Some pw \<longrightarrow>
          commit_error e = None \<longrightarrow>
            (\<exists>d' u. register e r d =
                      (Inr (jsonify (Message ''Registration successful'') 201), d') \<and>
                    users d' = users d @ [u] \<and>
                    u_username u = name \<and>
                    u_password u = generate_password_hash e pw \<and>
                    (generate_password_hash e pw \<noteq> pw \<longrightarrow> u_password u \<noteq> pw) \<and>
                    user_by_name d' name = Some u))"
proof (intro conjI allI impI)
  fix u
  assume "user_by_name d name = Some u"
  then show "register e r d = (Inr (jsonify (Message ''User already exists'') 400), d)"
    using assms by (simp add: register_def)
next
  assume fresh: "user_by_name d name = None"
    and pw: "json_body r ''password'' = Some pw"
    and ok: "commit_error e = None"
  let ?u = "\<lparr>u_id = next_id (map u_id (users d)), u_username = name,
             u_password = generate_password_hash e pw\<rparr>"
  let ?d = "d\<lparr>users := users d @ [?u]\<rparr>"
  have "register e r d = (Inr (jsonify (Message ''Registration successful'') 201), ?d)"
    using assms fresh pw ok by (simp add: register_def commit_def Let_def)
  moreover have "user_by_name ?d name = Some ?u"
    using fresh by (intro user_by_name_append) simp_all
  moreover have "users ?d = users d @ [?u]" by simp
  ultimately show "\<exists>d' u. register e r d =
                     (Inr (jsonify (Message ''Registration successful'') 201), d') \<and>
                    users d' = users d @ [u] \<and>
                    u_username u = name \<and>
                    u_password u = generate_password_hash e pw \<and>
                    (generate_password_hash e pw \<noteq> pw \<longrightarrow> u_password u \<noteq> pw) \<and>
                    user_by_name d' name = Some u"
    by (intro exI [of _ ?d] exI [of _ ?u]) simp
qed

text \<open>
  Carol registers on a database that holds Alice and Bob; a second registration
  under her name, with another password, is refused and changes nothing.
\<close>

theorem register_conflict_and_hash_witness:
  "json_body (json_request [''username'' \<mapsto> ''carol'', ''password'' \<mapsto> ''secret'']) ''username'' =
     Some ''carol'' \<and>
   user_by_name db1 ''carol'' = None \<and>
   commit_error env0 = None \<and>
   register env0 (json_request [''username'' \<mapsto> ''carol'', ''password'' \<mapsto> ''secret'']) db1 =
     (Inr (jsonify (Message ''Registration successful'') 201), db2) \<and>
   user_by_name db2 ''carol'' = Some carol \<and>
   u_password carol = generate_password_hash env0 ''secret'' \<and>
   u_password carol \<noteq> ''secret'' \<and>
   register env0 (json_request [''username'' \<mapsto> ''carol'', ''password'' \<mapsto> ''other'']) db2 =
     (Inr (jsonify (Message ''User already exists'') 400), db2)"
proof -
  let ?r1 = "json_request [''username'' \<mapsto> ''carol'', ''password'' \<mapsto> ''secret'']"
  let ?r2 = "json_request [''username'' \<mapsto> ''carol'', ''password'' \<mapsto> ''other'']"
  have n1: "json_body ?r1 ''username'' = Some ''carol''"
    by (simp add: json_request_def)
  have n2: "json_body ?r2 ''username'' = Some ''carol''"
    by (simp add: json_request_def)
  have fresh: "user_by_name db1 ''carol'' = None"
    by (simp add: user_by_name_def db1_def alice_def bob_def)
  have ok: "commit_error env0 = None"
    by (simp add: env0_def)
  have taken: "user_by_name db2 ''carol'' = Some carol"
    by (simp add: user_by_name_def db2_def db1_def alice_def bob_def carol_def)
  have hash: "u_password carol = generate_password_hash env0 ''secret''"
    by (simp add: carol_def env0_def)
  have plain: "u_password carol \<noteq> ''secret''"
    by (simp add: carol_def toy_hash_def)
  have first: "register env0 ?r1 db1 =
                 (Inr (jsonify (Message ''Registration successful'') 201), db2)"
    using fresh ok
    by (simp add: register_def json_request_def commit_def next_id_def env0_def
        db2_def db1_def carol_def alice_def bob_def)
  have second: "register env0 ?r2 db2 =
                  (Inr (jsonify (Message ''User already exists'') 400), db2)"
    using register_conflict_and_hash [OF n2, of db2 env0 "''other''"] taken by simp
  from n1 fresh ok first taken hash plain second
  show ?thesis by - (intro conjI, assumption+)
qed

text \<open>
  C7. For a request that carries a username and a password: \<^verbatim>\<open>login\<close> answers
  200 with the id and name of the stored user when a User of that name exists
  and \<^verbatim>\<open>check_password_hash\<close> accepts the stored hash for the supplied
  password; in every other case it answers 401; so a 200 is never returned
  without a stored user of that name whose hash verifies.
\<close>

theorem login_success_iff_verified:
  assumes "json_body r ''username'' = Some name"
    and "json_body r ''password'' = Some pw"
  shows "(\<forall>u. user_by_name d name = Some u \<and> check_password_hash e (u_password u) pw \<longrightarrow>
            login e r d =
              Inr (jsonify (LoginBody ''Login successful'' (u_id u) (u_username u)) 200)) \<and>
         (\<not> (\<exists>u. user_by_name d name = Some u \<and> check_password_hash e (u_password u) pw) \<longrightarrow>
            login e r d = Inr (jsonify (Message ''Invalid credentials'') 401)) \<and>
         (http_status (login e r d) = 200 \<longrightarrow>
            (\<exists>u \<in> set (users d). u_username u = name \<and>
                                  check_password_hash e (u_password u) pw))"
proof (cases "user_by_name d name")
  case None
  then show ?thesis
    using assms by (simp add: login_def jsonify_def)
next
  case (Some u)
  then have "u \<in> set (users d) \<and> u_username u = name"
    by (rule user_by_name_mem)
  then show ?thesis
    using assms Some by (auto simp: login_def jsonify_def)
qed

text \<open>Alice logs in with her password and is refused with a wrong one.\<close>

theorem login_success_iff_verified_witness:
  "json_body (json_request [''username'' \<mapsto> ''alice'', ''password'' \<mapsto> ''wonderland''])
     ''username'' = Some ''alice'' \<and>
   json_body (json_request [''username'' \<mapsto> ''alice'', ''password'' \<mapsto> ''wonderland''])
     ''password'' = Some ''wonderland'' \<and>
   login env0 (json_request [''username'' \<mapsto> ''alice'', ''password'' \<mapsto> ''wonderland'']) db1 =
     Inr (jsonify (LoginBody ''Login successful'' 1 ''alice'') 200) \<and>
   login env0 (json_request [''username'' \<mapsto> ''alice'', ''password'' \<mapsto> ''rabbit'']) db1 =
     Inr (jsonify (Message ''Invalid credentials'') 401)"
proof -
  let ?good = "json_request [''username'' \<mapsto> ''alice'', ''password'' \<mapsto> ''wonderland'']"
  let ?bad = "json_request [''username'' \<mapsto> ''alice'', ''password'' \<mapsto> ''rabbit'']"
  have g1: "json_body ?good ''username'' = Some ''alice''"
    and g2: "json_body ?good ''password'' = Some ''wonderland''"
    and b1: "json_body ?bad ''username'' = Some ''alice''"
    and b2: "json_body ?bad ''password'' = Some ''rabbit''"
    by (simp_all add: json_request_def)
  have found: "user_by_name db1 ''alice'' = Some alice"
    by (simp add: user_by_name_def db1_def alice_def)
  have yes: "check_password_hash env0 (u_password alice) ''wonderland''"
    by (simp add: env0_def toy_check_def alice_def)
  have no: "\<not> check_password_hash env0 (u_password alice) ''rabbit''"
    by (simp add: env0_def toy_check_def toy_hash_def alice_def)
  have row: "u_id alice = 1" "u_username alice = ''alice''"
    by (simp_all add: alice_def)
  have a: "login env0 ?good db1 = Inr (jsonify (LoginBody ''Login successful'' 1 ''alice'') 200)"
    using login_success_iff_verified [OF g1 g2, of db1 env0] found yes row by simp
  have b: "login env0 ?bad db1 = Inr (jsonify (Message ''Invalid credentials'') 401)"
    using login_success_iff_verified [OF b1 b2, of db1 env0] found no by simp
  from g1 g2 a b show ?thesis by - (intro conjI, assumption+)
qed

subsection \<open>Updating a post\<close>

text \<open>
  C4. For an existing Post and a request whose \<^verbatim>\<open>user_id\<close> form field is
  absent, does not convert, or is not the owner's id, \<^verbatim>\<open>updatePost\<close> answers
  403 and returns the database as it was: the Post and all its \<^verbatim>\<open>PostImage\<close>
  rows are unmodified.
\<close>

theorem update_post_non_owner_forbidden:
  "get_post d post_id = Some p \<Longrightarrow>
   get_int e (form r) ''user_id'' \<noteq> Some (p_user_id p) \<Longrightarrow>
   update_post e r post_id d = (Inr (jsonify (Message ''Permission denied'') 403), d) \<and>
   get_post (snd (update_post e r post_id d)) post_id = Some p \<and>
   images_of (snd (update_post e r post_id d)) post_id = images_of d post_id"
  by (simp add: update_post_def get_or_404_def)

text \<open>
  Bob (user 2) tries to retitle Alice's post, drop its cover and delete its
  gallery image.
\<close>

theorem update_post_non_owner_forbidden_witness:
  "get_post db1 1 = Some post1 \<and>
   get_int env0 (form (form_request [''user_id'' \<mapsto> ''2'', ''title'' \<mapsto> ''Mine'',
       ''delete_cover'' \<mapsto> ''true'', ''delete_image_ids'' \<mapsto> ''[10]''] cover_files))
     ''user_id'' \<noteq> Some (p_user_id post1) \<and>
   update_post env0 (form_request [''user_id'' \<mapsto> ''2'', ''title'' \<mapsto> ''Mine'',
       ''delete_cover'' \<mapsto> ''true'', ''delete_image_ids'' \<mapsto> ''[10]''] cover_files) 1 db1 =
     (Inr (jsonify (Message ''Permission denied'') 403), db1)"
proof -
  let ?r = "form_request [''user_id'' \<mapsto> ''2'', ''title'' \<mapsto> ''Mine'',
       ''delete_cover'' \<mapsto> ''true'', ''delete_image_ids'' \<mapsto> ''[10]''] cover_files"
  have h1: "get_post db1 1 = Some post1"
    by (simp add: get_post_def db1_def post1_def)
  have h2: "get_int env0 (form ?r) ''user_id'' \<noteq> Some (p_user_id post1)"
    by (simp add: get_int_def form_request_def env0_def decimal_int_def post1_def)
  have a: "update_post env0 ?r 1 db1 = (Inr (jsonify (Message ''Permission denied'') 403), db1)"
    using update_post_non_owner_forbidden [OF h1 h2] by simp
  from h1 h2 a show ?thesis by - (intro conjI, assumption+)
qed

lemma add_gallery_ok:
  "\<forall>g \<in> set fs. \<exists>u. smart_upload e g = Inr u \<Longrightarrow>
   \<exists>imgs'. add_gallery e pid fs imgs = Inr imgs'"
proof (induction fs arbitrary: imgs)
  case Nil
  then show ?case by simp
next
  case (Cons f fs)
  then obtain u where u: "smart_upload e f = Inr u" by auto
  from Cons have rest: "\<And>imgs. \<exists>imgs'. add_gallery e pid fs imgs = Inr imgs'" by simp
  show ?case
    using u rest by (cases u) simp_all
qed

lemma update_cover_replace:
  assumes "form r ''delete_cover'' = Some ''true''"
    and "files r ''image'' = f # fs"
    and "filename f \<noteq> []"
    and "store e f = Inr url"
  shows "update_cover e r cur = Inr (Some url)"
  using assms by (simp add: update_cover_def smart_upload_def)

lemma update_post_owner_eq:
  assumes "get_post d post_id = Some p"
    and "get_int e (form r) ''user_id'' = Some (p_user_id p)"
    and "update_cover e r (p_image_url p) = Inr cover"
    and "add_gallery e (p_id p) (files r ''images'') (delete_gallery e r p (post_images d)) =
           Inr imgs2"
  shows "update_post e r post_id d =
     (let p1 = p\<lparr>p_title := get_default (form r) ''title'' (p_title p),
                 p_content := get_default (form r) ''content'' (p_content p),
                 p_image_url := cover\<rparr>;
          p2 = (if p1 = p then p else p1\<lparr>p_updated_at := now e\<rparr>);
          pending = d\<lparr>posts := map (\<lambda>q. if p_id q = p_id p then p2 else q) (posts d),
                      post_images := imgs2\<rparr>
      in case commit e pending of
           Inr d' \<Rightarrow> (Inr (jsonify (Message ''Update successful'') 200), d')
         | Inl x \<Rightarrow> (Inr (jsonify (ServerError x) 500), d))"
  using assms unfolding update_post_def get_or_404_def Let_def by simp

text \<open>
  C10. For an existing Post and its owner, a request with
  \<^verbatim>\<open>delete_cover = 'true'\<close> and a cover file that has a name, whose upload
  (like those of the gallery files) and commit go through, is answered 200 and
  leaves the Post with \<^verbatim>\<open>image_url\<close> equal to the URL of the uploaded file:
  the replacement wins over the deletion.
\<close>

theorem update_post_delete_cover_then_upload:
  assumes "get_post d post_id = Some p"
    and "get_int e (form r) ''user_id'' = Some (p_user_id p)"
    and "form r ''delete_cover'' = Some ''true''"
    and "files r ''image'' = f # fs"
    and "filename f \<noteq> []"
    and "store e f = Inr url"
    and "\<forall>g \<in> set (files r ''images''). \<exists>u. smart_upload e g = Inr u"
    and "commit_error e = None"
  shows "\<exists>d' p'. update_post e r post_id d =
                    (Inr (jsonify (Message ''Update successful'') 200), d') \<and>
                  get_post d' post_id = Some p' \<and>
                  p_image_url p' = Some url"
proof -
  have k: "p_id p = post_id"
    using assms(1) by (rule get_post_id)
  have cover: "update_cover e r (p_image_url p) = Inr (Some url)"
    using assms(3-6) by (rule update_cover_replace)
  obtain imgs2 where gal:
    "add_gallery e (p_id p) (files r ''images'') (delete_gallery e r p (post_images d)) =
       Inr imgs2"
    using add_gallery_ok [OF assms(7)] by blast
  define p1 where "p1 = p\<lparr>p_title := get_default (form r) ''title'' (p_title p),
                           p_content := get_default (form r) ''content'' (p_content p),
                           p_image_url := Some url\<rparr>"
  define p2 where "p2 = (if p1 = p then p else p1\<lparr>p_updated_at := now e\<rparr>)"
  define d' where "d' = d\<lparr>posts := map (\<lambda>q. if p_id q = p_id p then p2 else q) (posts d),
                          post_images := imgs2\<rparr>"
  have res: "update_post e r post_id d =
               (Inr (jsonify (Message ''Update successful'') 200), d')"
    unfolding update_post_owner_eq [OF assms(1,2) cover gal]
    using assms(8) by (simp add: Let_def commit_def d'_def p2_def p1_def)
  have url1: "p_image_url p1 = Some url" by (simp add: p1_def)
  have id1: "p_id p1 = p_id p" by (simp add: p1_def)
  have url2: "p_image_url p2 = Some url"
  proof (cases "p1 = p")
    case True
    then show ?thesis using url1 by (simp add: p2_def)
  next
    case False
    then show ?thesis using url1 by (simp add: p2_def)
  qed
  have id2: "p_id p2 = post_id"
    using id1 k by (simp add: p2_def)
  have "find (\<lambda>q. p_id q = post_id)
          (map (\<lambda>q. if p_id q = post_id then p2 else q) (posts d)) = Some p2"
    using assms(1) id2 unfolding get_post_def by (rule find_map_replace)
  then have "get_post d' post_id = Some p2"
    using k by (simp add: get_post_def d'_def)
  with res url2 show ?thesis by blast
qed

text \<open>Alice drops the cover of her post and uploads \<^verbatim>\<open>new.png\<close> in one request.\<close>

theorem update_post_delete_cover_then_upload_witness:
  "get_post db1 1 = Some post1 \<and>
   get_int env0 (form (form_request [''user_id'' \<mapsto> ''1'', ''delete_cover'' \<mapsto> ''true'']
                        cover_files)) ''user_id'' = Some (p_user_id post1) \<and>
   form (form_request [''user_id'' \<mapsto> ''1'', ''delete_cover'' \<mapsto> ''true''] cover_files)
     ''delete_cover'' = Some ''true'' \<and>
   files (form_request [''user_id'' \<mapsto> ''1'', ''delete_cover'' \<mapsto> ''true''] cover_files)
     ''image'' = [new_cover] \<and>
   filename new_cover \<noteq> [] \<and>
   store env0 new_cover = Inr ''/static/uploads/new.png'' \<and>
   commit_error env0 = None \<and>
   (\<exists>d' p'. update_post env0
               (form_request [''user_id'' \<mapsto> ''1'', ''delete_cover'' \<mapsto> ''true''] cover_files)
               1 db1 = (Inr (jsonify (Message ''Update successful'') 200), d') \<and>
            get_post d' 1 = Some p' \<and>
            p_image_url p' = Some ''/static/uploads/new.png'')"
proof -
  let ?r = "form_request [''user_id'' \<mapsto> ''1'', ''delete_cover'' \<mapsto> ''true''] cover_files"
  have h1: "get_post db1 1 = Some post1"
    by (simp add: get_post_def db1_def post1_def)
  have h2: "get_int env0 (form ?r) ''user_id'' = Some (p_user_id post1)"
    by (simp add: get_int_def form_request_def env0_def decimal_int_def post1_def)
  have h3: "form ?r ''delete_cover'' = Some ''true''"
    by (simp add: form_request_def)
  have h4: "files ?r ''image'' = [new_cover]"
    by (simp add: form_request_def cover_files_def)
  have h5: "filename new_cover \<noteq> []"
    by (simp add: new_cover_def)
  have h6: "store env0 new_cover = Inr ''/static/uploads/new.png''"
    by (simp add: env0_def store_ok_def new_cover_def)
  have h7: "\<forall>g \<in> set (files ?r ''images''). \<exists>u. smart_upload env0 g = Inr u"
    by (simp add: form_request_def cover_files_def)
  have h8: "commit_error env0 = None"
    by (simp add: env0_def)
  from h1 h2 h3 h4 h5 h6 h8 update_post_delete_cover_then_upload [OF h1 h2 h3 h4 h5 h6 h7 h8]
  show ?thesis by - (intro conjI, assumption+)
qed















subsection \<open>Listing and searching posts\<close>

lemma like_percent_all: "like ''%'' s"
  by (induction s) simp_all

lemma like_prefix:
  "CHR ''%'' \<notin> set t \<Longrightarrow> CHR ''_'' \<notin> set t \<Longrightarrow> like (t @ ''%'') s = prefix t s"
proof (induction t arbitrary: s)
  case Nil
  then show ?case by (simp add: like_percent_all)
next
  case (Cons a t)
  then show ?case by (cases s) auto
qed

lemma like_sublist:
  "CHR ''%'' \<notin> set t \<Longrightarrow> CHR ''_'' \<notin> set t \<Longrightarrow>
   like (CHR ''%'' # t @ ''%'') s = sublist t s"
proof (induction s)
  case Nil
  then show ?case using like_prefix [of t "[]"] by simp
next
  case (Cons c cs)
  then show ?case using like_prefix [of t "c # cs"] by (simp add: sublist_Cons_right)
qed

lemma lower_char_eq_iff:
  assumes "(of_char k :: nat) < 65 \<or> (90 < (of_char k :: nat) \<and> (of_char k :: nat) < 97) \<or>
           122 < (of_char k :: nat)"
  shows "(lower_char c = k) = (c = k)"
proof (cases "65 \<le> (of_char c :: nat) \<and> (of_char c :: nat) \<le> 90")
  case True
  then have "take_bit 8 (of_char c + 32 :: nat) = of_char c + 32"
    by (simp add: take_bit_eq_mod)
  then have "char_of (of_char c + 32 :: nat) \<noteq> k"
    using True assms by (auto simp: char_of_eq_iff)
  moreover have "c \<noteq> k"
    using True assms by auto
  ultimately show ?thesis
    using True by (simp add: lower_char_def)
next
  case False
  then show ?thesis by (auto simp: lower_char_def)
qed

lemma lower_char_percent: "(lower_char c = CHR ''%'') = (c = CHR ''%'')"
  by (rule lower_char_eq_iff) simp

lemma lower_char_underscore: "(lower_char c = CHR ''_'') = (c = CHR ''_'')"
  by (rule lower_char_eq_iff) simp

lemma lower_mem_percent: "(CHR ''%'' \<in> set (lower t)) = (CHR ''%'' \<in> set t)"
proof (induction t)
  case Nil
  then show ?case by (simp add: lower_def)
next
  case (Cons a t)
  have "(CHR ''%'' = lower_char a) = (CHR ''%'' = a)"
    using lower_char_percent [of a] by (simp add: eq_commute)
  then show ?case using Cons by (simp add: lower_def)
qed

lemma lower_mem_underscore: "(CHR ''_'' \<in> set (lower t)) = (CHR ''_'' \<in> set t)"
proof (induction t)
  case Nil
  then show ?case by (simp add: lower_def)
next
  case (Cons a t)
  have "(CHR ''_'' = lower_char a) = (CHR ''_'' = a)"
    using lower_char_underscore [of a] by (simp add: eq_commute)
  then show ?case using Cons by (simp add: lower_def)
qed

text \<open>
  For a term without \<^verbatim>\<open>%\<close> and \<^verbatim>\<open>_\<close> the filter of \<^verbatim>\<open>get_posts\<close> is the
  case-insensitive substring test.
\<close>

lemma ilike_contains:
  assumes "CHR ''%'' \<notin> set t" and "CHR ''_'' \<notin> set t"
  shows "ilike s (''%'' @ t @ ''%'') = contains_ci t s"
proof -
  have "lower (''%'' @ t @ ''%'') = CHR ''%'' # lower t @ ''%''"
    using lower_char_percent [of "CHR ''%''"] by (simp add: lower_def)
  then show ?thesis
    using like_sublist [of "lower t" "lower s"] assms
    by (simp add: ilike_def contains_ci_def lower_mem_percent lower_mem_underscore)
qed

lemma order_by_created_at_desc_sorted:
  "sorted_wrt (\<lambda>a b. p_created_at b \<le> p_created_at a) (order_by_created_at_desc ps)"
proof -
  have "sorted (map (\<lambda>p. - p_created_at p) (sort_key (\<lambda>p. - p_created_at p) ps))"
    by (rule sorted_sort_key)
  then show ?thesis
    by (simp add: order_by_created_at_desc_def sorted_map)
qed

lemma order_by_created_at_desc_mset: "mset (order_by_created_at_desc ps) = mset ps"
  by (simp add: order_by_created_at_desc_def)

lemma get_posts_query_sorted:
  "sorted_wrt (\<lambda>a b. p_created_at b \<le> p_created_at a) (get_posts_query r d)"
  by (simp add: get_posts_query_def Let_def order_by_created_at_desc_sorted)

text \<open>Without a term, or with the empty term, every post is listed, newest first.\<close>

lemma get_posts_query_no_term:
  assumes "args r ''q'' = None \<or> args r ''q'' = Some []"
  shows "mset (get_posts_query r d) = mset (posts d) \<and>
         sorted_wrt (\<lambda>a b. p_created_at b \<le> p_created_at a) (get_posts_query r d)"
proof -
  have "get_default (args r) ''q'' [] = []"
    using assms by (auto simp: get_default_def)
  then have "get_posts_query r d = order_by_created_at_desc (posts d)"
    by (simp add: get_posts_query_def)
  then show ?thesis
    by (simp add: order_by_created_at_desc_mset order_by_created_at_desc_sorted)
qed

text \<open>
  With a term that holds neither \<^verbatim>\<open>%\<close> nor \<^verbatim>\<open>_\<close>, exactly the posts whose
  title or content contains the term, case-insensitively, are listed, newest
  first.
\<close>

lemma get_posts_query_plain_term:
  assumes "args r ''q'' = Some t" and "t \<noteq> []"
    and "CHR ''%'' \<notin> set t" and "CHR ''_'' \<notin> set t"
  shows "mset (get_posts_query r d) = mset (filter (matches_term t) (posts d)) \<and>
         sorted_wrt (\<lambda>a b. p_created_at b \<le> p_created_at a) (get_posts_query r d)"
proof -
  have q: "get_default (args r) ''q'' [] = t"
    using assms(1) by (simp add: get_default_def)
  have f: "(\<lambda>p. ilike (p_title p) (''%'' @ t @ ''%'') \<or> ilike (p_content p) (''%'' @ t @ ''%'')) =
           matches_term t"
    using ilike_contains [OF assms(3,4)] by (simp add: matches_term_def fun_eq_iff)
  have "get_posts_query r d = order_by_created_at_desc (filter (matches_term t) (posts d))"
    using q assms(2) f by (simp add: get_posts_query_def)
  then show ?thesis
    by (simp add: order_by_created_at_desc_mset order_by_created_at_desc_sorted)
qed

text \<open>
  C8. The claim is that \<^verbatim>\<open>listPosts\<close> returns exactly the posts whose title
  or content contains the term as a case-insensitive substring. The term is
  pasted into a \<^verbatim>\<open>LIKE\<close> pattern unescaped, so its \<^verbatim>\<open>_\<close> and \<^verbatim>\<open>%\<close> act as
  wildcards: for the term \<^verbatim>\<open>_\<close> the post titled \<^verbatim>\<open>Rome\<close> with content
  \<^verbatim>\<open>trip\<close> is listed although neither text contains an underscore.
\<close>

theorem get_posts_wildcard_term:
  "get_posts_query (query_request [''q'' \<mapsto> ''_'']) db1 = [post1] \<and>
   get_posts (query_request [''q'' \<mapsto> ''_'']) db1 =
     Inr (jsonify (PostList [to_dict db1 False post1]) 200) \<and>
   \<not> matches_term ''_'' post1 \<and>
   filter (matches_term ''_'') (posts db1) = []"
proof -
  have t: "ilike (p_title post1) (''%'' @ ''_'' @ ''%'')"
    by (simp add: ilike_def lower_def lower_char_def post1_def char_of_eq_iff take_bit_eq_mod)
  have q: "get_default (args (query_request [''q'' \<mapsto> ''_''])) ''q'' [] = ''_''"
    by (simp add: get_default_def query_request_def)
  have a: "get_posts_query (query_request [''q'' \<mapsto> ''_'']) db1 = [post1]"
    using t by (simp add: get_posts_query_def q order_by_created_at_desc_def db1_def)
  have l: "lower ''_'' = ''_''" "lower ''Rome'' = ''rome''" "lower ''trip'' = ''trip''"
    by (simp_all add: lower_def lower_char_def char_of_eq_iff take_bit_eq_mod)
  have b: "\<not> matches_term ''_'' post1"
    by (simp add: matches_term_def contains_ci_def post1_def l sublist_code prefix_code)
  have c: "filter (matches_term ''_'') (posts db1) = []"
    using b by (simp add: db1_def)
  from a b c show ?thesis
    by (simp add: get_posts_def)
qed


end
